theory Spec2Isabelle
  imports Main "HOL-Library.Sublist" "HOL-Library.Char_ord"
begin

section \<open>Python strings\<close>

text \<open>
  A Python \<^verbatim>\<open>str\<close> is modelled as a \<^typ>\<open>string\<close> whose characters are read as the code
  points U+0000 to U+00FF.  The classifications below are the ones of CPython on that
  range: \<^verbatim>\<open>\d\<close> is \<^verbatim>\<open>str.isdecimal\<close>, \<^verbatim>\<open>\s\<close> and \<^verbatim>\<open>str.strip()\<close> use \<^verbatim>\<open>str.isspace\<close>,
  \<^verbatim>\<open>\w\<close> is \<^verbatim>\<open>str.isalnum\<close> or the underscore.  Code points above U+00FF are outside the model.
\<close>

definition is_digit :: "char \<Rightarrow> bool" where
  "is_digit c = (CHR ''0'' \<le> c \<and> c \<le> CHR ''9'')"

definition is_space :: "char \<Rightarrow> bool" where
  "is_space c =
     ((CHR 0x09 \<le> c \<and> c \<le> CHR 0x0D) \<or> (CHR 0x1C \<le> c \<and> c \<le> CHR 0x20) \<or>
      c = CHR 0x85 \<or> c = CHR 0xA0)"

definition is_alpha :: "char \<Rightarrow> bool" where
  "is_alpha c =
     ((CHR ''A'' \<le> c \<and> c \<le> CHR ''Z'') \<or> (CHR ''a'' \<le> c \<and> c \<le> CHR ''z'') \<or>
      c = CHR 0xAA \<or> c = CHR 0xB5 \<or> c = CHR 0xBA \<or>
      (CHR 0xC0 \<le> c \<and> c \<le> CHR 0xD6) \<or> (CHR 0xD8 \<le> c \<and> c \<le> CHR 0xF6) \<or>
      CHR 0xF8 \<le> c)"

definition is_numeric :: "char \<Rightarrow> bool" where
  "is_numeric c =
     (is_digit c \<or> c = CHR 0xB2 \<or> c = CHR 0xB3 \<or> c = CHR 0xB9 \<or>
      (CHR 0xBC \<le> c \<and> c \<le> CHR 0xBE))"

definition is_word :: "char \<Rightarrow> bool" where
  "is_word c = (is_alpha c \<or> is_numeric c \<or> c = CHR ''_'')"

text \<open>The character 32 code points above, and the one 32 below.\<close>

definition up32 :: "char \<Rightarrow> char" where
  "up32 c = char_of (of_char c + (32::nat))"

definition down32 :: "char \<Rightarrow> char" where
  "down32 c = char_of (of_char c - (32::nat))"

definition lower_char :: "char \<Rightarrow> char" where
  "lower_char c =
     (if (CHR ''A'' \<le> c \<and> c \<le> CHR ''Z'') \<or> (CHR 0xC0 \<le> c \<and> c \<le> CHR 0xD6) \<or>
         (CHR 0xD8 \<le> c \<and> c \<le> CHR 0xDE)
      then up32 c else c)"

definition lower :: "string \<Rightarrow> string" where
  "lower s = map lower_char s"

text \<open>
  \<^verbatim>\<open>str.upper()\<close> maps U+00DF to the two letters SS.  The images of U+00B5 and U+00FF lie
  above U+00FF; they stand for themselves here, which like their images are not ASCII and so
  occur in none of the keywords the program looks for in an upper-cased string.
\<close>

definition upper_char :: "char \<Rightarrow> string" where
  "upper_char c =
     (if (CHR ''a'' \<le> c \<and> c \<le> CHR ''z'') \<or> (CHR 0xE0 \<le> c \<and> c \<le> CHR 0xF6) \<or>
         (CHR 0xF8 \<le> c \<and> c \<le> CHR 0xFE)
      then [down32 c]
      else if c = CHR 0xDF then ''SS'' else [c])"

definition upper :: "string \<Rightarrow> string" where
  "upper s = concat (map upper_char s)"

definition strip :: "string \<Rightarrow> string" where
  "strip s = rev (dropWhile is_space (rev (dropWhile is_space s)))"

definition rstrip_chr :: "char \<Rightarrow> string \<Rightarrow> string" where
  "rstrip_chr c s = rev (dropWhile (\<lambda>x. x = c) (rev s))"

text \<open>\<^verbatim>\<open>sub in s\<close>: \<^verbatim>\<open>sub\<close> occurs in \<^verbatim>\<open>s\<close> as a contiguous substring.\<close>

fun py_in :: "string \<Rightarrow> string \<Rightarrow> bool" where
  "py_in sub [] = (sub = [])"
| "py_in sub (c # cs) = (prefix sub (c # cs) \<or> py_in sub cs)"

text \<open>\<^verbatim>\<open>s.replace(old, new)\<close>: the occurrences of \<^verbatim>\<open>old\<close> are replaced from left to right.\<close>

function replace :: "string \<Rightarrow> string \<Rightarrow> string \<Rightarrow> string" where
  "replace old new s =
     (if old = [] then new @ concat (map (\<lambda>c. c # new) s)
      else case s of
        [] \<Rightarrow> []
      | c # cs \<Rightarrow> if prefix old s then new @ replace old new (drop (length old) s)
                 else c # replace old new cs)"
  by pat_completeness auto
termination
  by (relation "measure (\<lambda>(old, new, s). length s)") auto

text \<open>\<^verbatim>\<open>s.split(sep)\<close> for a separator of one character.\<close>

fun split_chr :: "char \<Rightarrow> string \<Rightarrow> string list" where
  "split_chr sep [] = [[]]"
| "split_chr sep (c # cs) =
     (if c = sep then [] # split_chr sep cs
      else case split_chr sep cs of
        [] \<Rightarrow> [[c]]
      | l # ls \<Rightarrow> (c # l) # ls)"

section \<open>The fragment of Python's \<^verbatim>\<open>re\<close> the program uses\<close>

text \<open>
  The patterns of \<^verbatim>\<open>generate_sql_from_pattern\<close> are built from literal characters, the
  classes \<^verbatim>\<open>\d\<close>, \<^verbatim>\<open>\s\<close> and \<^verbatim>\<open>.\<close>, the anchor \<^verbatim>\<open>\b\<close>, concatenation, alternation, capturing
  groups, \<^verbatim>\<open>?\<close> on a sub-pattern, and the greedy \<^verbatim>\<open>*\<close> and \<^verbatim>\<open>+\<close> on a single class.
\<close>

datatype cls = CChr char | CDigit | CSpace | CAny

fun cls_ok :: "cls \<Rightarrow> char \<Rightarrow> bool" where
  "cls_ok (CChr a) c = (c = a)"
| "cls_ok CDigit c = is_digit c"
| "cls_ok CSpace c = is_space c"
| "cls_ok CAny c = (c \<noteq> CHR 0x0A)"

datatype rx =
    Eps
  | Atom cls
  | Bnd
  | Seq rx rx
  | Alt rx rx
  | Opt rx
  | Star cls
  | Plus cls
  | Grp nat rx

text \<open>
  A position of the matcher is the text still to be read, together with whether the
  character just before it is a word character (false at the start of the text); the
  groups captured so far are carried along.
\<close>

type_synonym caps = "nat \<Rightarrow> string option"
type_synonym mstate = "bool \<times> string \<times> caps"

text \<open>\<^verbatim>\<open>\b\<close>: exactly one of the two neighbouring characters is a word character.\<close>

definition at_boundary :: "bool \<Rightarrow> string \<Rightarrow> bool" where
  "at_boundary pw rest = (pw \<noteq> (case rest of [] \<Rightarrow> False | c # _ \<Rightarrow> is_word c))"

text \<open>
  The positions a greedy \<^verbatim>\<open>c*\<close> can stop at, in the order the backtracking matcher tries
  them: the longest run first.
\<close>

fun star_ends :: "cls \<Rightarrow> bool \<Rightarrow> string \<Rightarrow> (bool \<times> string) list" where
  "star_ends c pw [] = [(pw, [])]"
| "star_ends c pw (x # xs) =
     (if cls_ok c x then star_ends c (is_word x) xs @ [(pw, x # xs)] else [(pw, x # xs)])"

definition plus_ends :: "cls \<Rightarrow> bool \<Rightarrow> string \<Rightarrow> (bool \<times> string) list" where
  "plus_ends c pw rest =
     (case rest of [] \<Rightarrow> [] | x # xs \<Rightarrow> if cls_ok c x then star_ends c (is_word x) xs else [])"

text \<open>
  All the ways a pattern matches from a position, in the matcher's order of preference;
  the head of the list is the match Python reports.
\<close>

fun matches :: "rx \<Rightarrow> mstate \<Rightarrow> mstate list" where
  "matches Eps st = [st]"
| "matches (Atom c) (pw, rest, g) =
     (case rest of [] \<Rightarrow> [] | x # xs \<Rightarrow> if cls_ok c x then [(is_word x, xs, g)] else [])"
| "matches Bnd (pw, rest, g) = (if at_boundary pw rest then [(pw, rest, g)] else [])"
| "matches (Seq a b) st = concat (map (matches b) (matches a st))"
| "matches (Alt a b) st = matches a st @ matches b st"
| "matches (Opt a) st = matches a st @ [st]"
| "matches (Star c) (pw, rest, g) = map (\<lambda>(pw', rest'). (pw', rest', g)) (star_ends c pw rest)"
| "matches (Plus c) (pw, rest, g) = map (\<lambda>(pw', rest'). (pw', rest', g)) (plus_ends c pw rest)"
| "matches (Grp k a) (pw, rest, g) =
     map (\<lambda>(pw', rest', g'). (pw', rest', g'(k \<mapsto> take (length rest - length rest') rest)))
       (matches a (pw, rest, g))"

text \<open>\<^verbatim>\<open>re.search\<close>: the first match at the leftmost position that has one.\<close>

fun search_from :: "rx \<Rightarrow> bool \<Rightarrow> string \<Rightarrow> mstate option" where
  "search_from r pw [] = (case matches r (pw, [], Map.empty) of [] \<Rightarrow> None | m # _ \<Rightarrow> Some m)"
| "search_from r pw (c # cs) =
     (case matches r (pw, c # cs, Map.empty) of
        [] \<Rightarrow> search_from r (is_word c) cs
      | m # _ \<Rightarrow> Some m)"

definition re_search :: "rx \<Rightarrow> string \<Rightarrow> mstate option" where
  "re_search r s = search_from r False s"

text \<open>\<^verbatim>\<open>match.group(k)\<close>; \<^verbatim>\<open>None\<close> for a group that took no part in the match.\<close>

definition group :: "mstate \<Rightarrow> nat \<Rightarrow> string option" where
  "group m k = (case m of (pw, rest, g) \<Rightarrow> g k)"

text \<open>Truth value of a match object in a condition.\<close>

definition found :: "rx \<Rightarrow> string \<Rightarrow> bool" where
  "found r s = (re_search r s \<noteq> None)"

subsection \<open>Writing patterns\<close>

fun lit :: "string \<Rightarrow> rx" where
  "lit [] = Eps"
| "lit [c] = Atom (CChr c)"
| "lit (c # cs) = Seq (Atom (CChr c)) (lit cs)"

fun alts :: "rx list \<Rightarrow> rx" where
  "alts [] = Eps"
| "alts [r] = r"
| "alts (r # rs) = Alt r (alts rs)"

fun seqs :: "rx list \<Rightarrow> rx" where
  "seqs [] = Eps"
| "seqs [r] = r"
| "seqs (r # rs) = Seq r (seqs rs)"

text \<open>\<^verbatim>\<open>word\<close> followed by an optional \<^verbatim>\<open>s\<close>, as in \<^verbatim>\<open>products?\<close>.\<close>

definition plural :: "string \<Rightarrow> rx" where
  "plural w = Seq (lit w) (Opt (Atom (CChr CHR ''s'')))"

section \<open>The rule-based translator\<close>

subsection \<open>The patterns of \<^verbatim>\<open>generate_sql_from_pattern\<close>, in the order of the source\<close>

text \<open>\<^verbatim>\<open>\b(\d+)\b\<close>\<close>

definition rx_limit :: rx where
  "rx_limit = seqs [Bnd, Grp 1 (Plus CDigit), Bnd]"

text \<open>\<^verbatim>\<open>\b(show|list|what|display)\b.*\btables?\b\<close>\<close>

definition rx_tables :: rx where
  "rx_tables = seqs [Bnd, Grp 1 (alts [lit ''show'', lit ''list'', lit ''what'', lit ''display'']),
     Bnd, Star CAny, Bnd, plural ''table'', Bnd]"

text \<open>\<^verbatim>\<open>\b(describe|schema|structure)\b.*\b(products?|users?|orders?)\<close>\<close>

definition rx_describe :: rx where
  "rx_describe = seqs [Bnd, Grp 1 (alts [lit ''describe'', lit ''schema'', lit ''structure'']),
     Bnd, Star CAny, Bnd, Grp 2 (alts [plural ''product'', plural ''user'', plural ''order''])]"

text \<open>\<^verbatim>\<open>\b(count|how many)\b.*\bproducts?\b\<close>\<close>

definition rx_count_products :: rx where
  "rx_count_products = seqs [Bnd, Grp 1 (alts [lit ''count'', lit ''how many'']),
     Bnd, Star CAny, Bnd, plural ''product'', Bnd]"

text \<open>\<^verbatim>\<open>\b(show|list|get|display)\b.*(all)?\s*\bproducts?\b\<close>\<close>

definition rx_list_products :: rx where
  "rx_list_products = seqs [Bnd, Grp 1 (alts [lit ''show'', lit ''list'', lit ''get'', lit ''display'']),
     Bnd, Star CAny, Opt (Grp 2 (lit ''all'')), Star CSpace, Bnd, plural ''product'', Bnd]"

text \<open>\<^verbatim>\<open>\b(top|most|highest)\b.*\b(expensive|price)\b.*\bproducts?\b\<close>\<close>

definition rx_expensive :: rx where
  "rx_expensive = seqs [Bnd, Grp 1 (alts [lit ''top'', lit ''most'', lit ''highest'']),
     Bnd, Star CAny, Bnd, Grp 2 (alts [lit ''expensive'', lit ''price'']),
     Bnd, Star CAny, Bnd, plural ''product'', Bnd]"

text \<open>\<^verbatim>\<open>\b(cheap|cheapest|lowest)\b.*\bprice\<close>\<close>

definition rx_cheapest :: rx where
  "rx_cheapest = seqs [Bnd, Grp 1 (alts [lit ''cheap'', lit ''cheapest'', lit ''lowest'']),
     Bnd, Star CAny, Bnd, lit ''price'']"

text \<open>\<^verbatim>\<open>\b(top|best|highest)\b.*\b(rated|rating)\b\<close>\<close>

definition rx_rated :: rx where
  "rx_rated = seqs [Bnd, Grp 1 (alts [lit ''top'', lit ''best'', lit ''highest'']),
     Bnd, Star CAny, Bnd, Grp 2 (alts [lit ''rated'', lit ''rating'']), Bnd]"

text \<open>\<^verbatim>\<open>\b(average|avg|mean)\b.*\bprice\<close>\<close>

definition rx_average :: rx where
  "rx_average = seqs [Bnd, Grp 1 (alts [lit ''average'', lit ''avg'', lit ''mean'']),
     Bnd, Star CAny, Bnd, lit ''price'']"

text \<open>\<^verbatim>\<open>\bunder\s+(\d+)\<close>\<close>

definition rx_under :: rx where
  "rx_under = seqs [Bnd, lit ''under'', Plus CSpace, Grp 1 (Plus CDigit)]"

text \<open>\<^verbatim>\<open>\b(above|over)\s+(\d+)\<close>\<close>

definition rx_above :: rx where
  "rx_above = seqs [Bnd, Grp 1 (alts [lit ''above'', lit ''over'']), Plus CSpace,
     Grp 2 (Plus CDigit)]"

text \<open>\<^verbatim>\<open>\b(count|how many)\b.*\busers?\b\<close>\<close>

definition rx_count_users :: rx where
  "rx_count_users = seqs [Bnd, Grp 1 (alts [lit ''count'', lit ''how many'']),
     Bnd, Star CAny, Bnd, plural ''user'', Bnd]"

text \<open>\<^verbatim>\<open>\b(list|show|all)\b.*\busers?\b\<close>\<close>

definition rx_list_users :: rx where
  "rx_list_users = seqs [Bnd, Grp 1 (alts [lit ''list'', lit ''show'', lit ''all'']),
     Bnd, Star CAny, Bnd, plural ''user'', Bnd]"

text \<open>\<^verbatim>\<open>\b(count|how many)\b.*\borders?\b\<close>\<close>

definition rx_count_orders :: rx where
  "rx_count_orders = seqs [Bnd, Grp 1 (alts [lit ''count'', lit ''how many'']),
     Bnd, Star CAny, Bnd, plural ''order'', Bnd]"

text \<open>\<^verbatim>\<open>\b(total|sum).*\b(revenue|sales)\b\<close>\<close>

definition rx_revenue :: rx where
  "rx_revenue = seqs [Bnd, Grp 1 (alts [lit ''total'', lit ''sum'']),
     Star CAny, Bnd, Grp 2 (alts [lit ''revenue'', lit ''sales'']), Bnd]"

text \<open>\<^verbatim>\<open>\b(recent|latest)\b.*\borders?\b\<close>\<close>

definition rx_recent_orders :: rx where
  "rx_recent_orders = seqs [Bnd, Grp 1 (alts [lit ''recent'', lit ''latest'']),
     Bnd, Star CAny, Bnd, plural ''order'', Bnd]"

text \<open>\<^verbatim>\<open>\bcategor\<close>\<close>

definition rx_categor :: rx where
  "rx_categor = seqs [Bnd, lit ''categor'']"

text \<open>\<^verbatim>\<open>\bbrands?\b.*\b(count|list)\<close>\<close>

definition rx_brands :: rx where
  "rx_brands = seqs [Bnd, plural ''brand'', Bnd, Star CAny, Bnd,
     Grp 1 (alts [lit ''count'', lit ''list''])]"

text \<open>\<^verbatim>\<open>\b(popular|most viewed|trending)\b.*\bproducts?\b\<close>\<close>

definition rx_popular :: rx where
  "rx_popular = seqs [Bnd, Grp 1 (alts [lit ''popular'', lit ''most viewed'', lit ''trending'']),
     Bnd, Star CAny, Bnd, plural ''product'', Bnd]"

text \<open>\<^verbatim>\<open>\buser.*\bactivity\b\<close>\<close>

definition rx_user_activity :: rx where
  "rx_user_activity = seqs [Bnd, lit ''user'', Star CAny, Bnd, lit ''activity'', Bnd]"

subsection \<open>The query texts\<close>

text \<open>An f-string prints a group that took no part in the match as \<^verbatim>\<open>None\<close>.\<close>

definition fmt_group :: "string option \<Rightarrow> string" where
  "fmt_group g = (case g of None \<Rightarrow> ''None'' | Some s \<Rightarrow> s)"

definition sql_tables :: string where
  "sql_tables = ''SELECT name FROM sqlite_master WHERE type='table' ORDER BY name;''"

definition sql_describe :: string where
  "sql_describe = ''SELECT sql FROM sqlite_master WHERE type='table' ORDER BY name;''"

definition sql_count_products :: string where
  "sql_count_products = ''SELECT COUNT(*) as total_products FROM products;''"

definition sql_list_products :: string where
  "sql_list_products = ''SELECT id, name, price, brand, category, rating FROM products LIMIT 100;''"

definition sql_expensive :: "string \<Rightarrow> string" where
  "sql_expensive limit =
     ''SELECT name, price, brand, category, rating FROM products ORDER BY price DESC LIMIT ''
     @ limit @ '';''"

definition sql_cheapest :: "string \<Rightarrow> string" where
  "sql_cheapest limit =
     ''SELECT name, price, brand, category, rating FROM products ORDER BY price ASC LIMIT ''
     @ limit @ '';''"

definition sql_rated :: "string \<Rightarrow> string" where
  "sql_rated limit =
     ''SELECT name, rating, price, brand, category FROM products ORDER BY rating DESC LIMIT ''
     @ limit @ '';''"

definition sql_average :: string where
  "sql_average =
     ''SELECT ROUND(AVG(price), 2) as average_price, COUNT(*) as total_products FROM products;''"

definition sql_under :: "string \<Rightarrow> string" where
  "sql_under price =
     ''SELECT name, price, brand, rating FROM products WHERE price < '' @ price
     @ '' ORDER BY price DESC LIMIT 100;''"

definition sql_above :: "string \<Rightarrow> string" where
  "sql_above price =
     ''SELECT name, price, brand, rating FROM products WHERE price > '' @ price
     @ '' ORDER BY price ASC LIMIT 100;''"

definition sql_count_users :: string where
  "sql_count_users = ''SELECT COUNT(*) as total_users FROM users;''"

definition sql_list_users :: string where
  "sql_list_users = ''SELECT id, username, email, created_at FROM users LIMIT 100;''"

definition sql_count_orders :: string where
  "sql_count_orders = ''SELECT COUNT(*) as total_orders FROM orders;''"

definition sql_revenue :: string where
  "sql_revenue = ''SELECT SUM(total) as total_revenue, COUNT(*) as total_orders, ROUND(AVG(total), 2) as avg_order_value FROM orders;''"

definition sql_recent_orders :: "string \<Rightarrow> string" where
  "sql_recent_orders limit =
     ''SELECT o.id, o.user_id, u.username, o.total, o.status, o.created_at FROM orders o LEFT JOIN users u ON o.user_id = u.id ORDER BY o.created_at DESC LIMIT ''
     @ limit @ '';''"

definition sql_categor :: string where
  "sql_categor = ''SELECT category, COUNT(*) as product_count, ROUND(AVG(price), 2) as avg_price FROM products GROUP BY category ORDER BY product_count DESC;''"

definition sql_brands :: string where
  "sql_brands = ''SELECT brand, COUNT(*) as product_count, ROUND(AVG(price), 2) as avg_price FROM products GROUP BY brand ORDER BY product_count DESC LIMIT 20;''"

text \<open>
  The two texts in triple quotes run over several lines: each line break is the character
  U+000A, followed by the 18 spaces of the source's indentation.
\<close>

definition nl_indent :: string where
  "nl_indent = CHR 0x0A # replicate 18 CHR '' ''"

definition sql_popular :: string where
  "sql_popular =
     ''SELECT p.name, p.price, p.brand, COUNT(i.id) as view_count '' @ nl_indent
     @ ''FROM products p '' @ nl_indent
     @ ''LEFT JOIN interactions i ON p.id = i.product_id '' @ nl_indent
     @ ''WHERE i.action = 'view' '' @ nl_indent
     @ ''GROUP BY p.id '' @ nl_indent
     @ ''ORDER BY view_count DESC '' @ nl_indent
     @ ''LIMIT 20;''"

definition sql_user_activity :: string where
  "sql_user_activity =
     ''SELECT u.username, COUNT(DISTINCT i.id) as interactions, '' @ nl_indent
     @ ''COUNT(DISTINCT o.id) as orders, SUM(o.total) as total_spent'' @ nl_indent
     @ ''FROM users u'' @ nl_indent
     @ ''LEFT JOIN interactions i ON u.id = i.user_id'' @ nl_indent
     @ ''LEFT JOIN orders o ON u.id = o.user_id'' @ nl_indent
     @ ''GROUP BY u.id'' @ nl_indent
     @ ''ORDER BY interactions DESC'' @ nl_indent
     @ ''LIMIT 50;''"

definition sql_brand :: "string \<Rightarrow> string" where
  "sql_brand brand =
     ''SELECT name, price, rating, category FROM products WHERE LOWER(brand) = ''
     @ [CHR 0x27] @ brand @ [CHR 0x27] @ '' ORDER BY rating DESC LIMIT 100;''"

definition sql_category :: "string \<Rightarrow> string" where
  "sql_category cat =
     ''SELECT name, price, brand, rating FROM products WHERE LOWER(category) = ''
     @ [CHR 0x27] @ cat @ [CHR 0x27] @ '' ORDER BY rating DESC LIMIT 100;''"

subsection \<open>\<^verbatim>\<open>generate_sql_from_pattern\<close>\<close>

text \<open>The inner function \<^verbatim>\<open>get_limit\<close>, with the normalised question it closes over.\<close>

definition get_limit :: "string \<Rightarrow> string \<Rightarrow> string" where
  "get_limit q dflt =
     (case re_search rx_limit q of None \<Rightarrow> dflt | Some m \<Rightarrow> fmt_group (group m 1))"

definition brands :: "string list" where
  "brands = [''nike'', ''adidas'', ''puma'', ''zara'', ''h&m'', ''levis'']"

definition categories :: "string list" where
  "categories = [''men'', ''women'', ''kids'', ''accessories'']"

text \<open>
  The two closing loops: the first vocabulary entry that occurs in the question decides.
  (The source also computes a title-cased brand name, which it never uses.)
\<close>

fun brand_loop :: "string list \<Rightarrow> string \<Rightarrow> string option" where
  "brand_loop [] q = None"
| "brand_loop (brand # rest) q =
     (if py_in brand q then Some (sql_brand brand) else brand_loop rest q)"

fun category_loop :: "string list \<Rightarrow> string \<Rightarrow> string option" where
  "category_loop [] q = None"
| "category_loop (cat # rest) q =
     (if py_in cat q then Some (sql_category cat) else category_loop rest q)"

definition from_pattern :: "string \<Rightarrow> string option" where
  "from_pattern q =
    (if found rx_tables q then Some sql_tables
     else if found rx_describe q then Some sql_describe
     else if found rx_count_products q then Some sql_count_products
     else if found rx_list_products q \<and> \<not> py_in ''category'' q then Some sql_list_products
     else if found rx_expensive q then Some (sql_expensive (get_limit q ''10''))
     else if found rx_cheapest q then Some (sql_cheapest (get_limit q ''10''))
     else if found rx_rated q then Some (sql_rated (get_limit q ''10''))
     else if found rx_average q then Some sql_average
     else (case re_search rx_under q of
       Some price_match \<Rightarrow> Some (sql_under (fmt_group (group price_match 1)))
     | None \<Rightarrow>
      (case re_search rx_above q of
         Some price_match \<Rightarrow> Some (sql_above (fmt_group (group price_match 2)))
       | None \<Rightarrow>
          (if found rx_count_users q then Some sql_count_users
           else if found rx_list_users q then Some sql_list_users
           else if found rx_count_orders q then Some sql_count_orders
           else if found rx_revenue q then Some sql_revenue
           else if found rx_recent_orders q then Some (sql_recent_orders (get_limit q ''10''))
           else if found rx_categor q then Some sql_categor
           else if found rx_brands q then Some sql_brands
           else if found rx_popular q then Some sql_popular
           else if found rx_user_activity q then Some sql_user_activity
           else (case brand_loop brands q of
                   Some sql \<Rightarrow> Some sql
                 | None \<Rightarrow> category_loop categories q)))))"

definition generate_sql_from_pattern :: "string \<Rightarrow> string option" where
  "generate_sql_from_pattern question = from_pattern (strip (lower question))"

section \<open>The AI translator\<close>

text \<open>
  What the program sees of the external text-generation service: everything from building
  the prompt to reading \<^verbatim>\<open>response.text\<close> either raises an exception or yields a text.
\<close>

datatype ai_outcome = AiRaises string | AiText string

text \<open>
  Lines 321 to 330: the response is trimmed, code fences and the prompt's label are removed,
  and of several lines the first non-blank one is kept.  \<^verbatim>\<open>lines[0]\<close> on an empty list raises
  \<^verbatim>\<open>IndexError\<close>, the result \<^const>\<open>None\<close> here.
\<close>

definition clean_response :: "string \<Rightarrow> string option" where
  "clean_response text =
     (let sql = strip text;
          sql = strip (replace ''```'' [] (replace ''```sql'' [] sql));
          sql = strip (replace ''**SQL Query:**'' [] sql)
      in if py_in [CHR 0x0A] sql
         then (case filter (\<lambda>line. line \<noteq> []) (map strip (split_chr CHR 0x0A sql)) of
                 [] \<Rightarrow> None
               | line # _ \<Rightarrow> Some line)
         else Some sql)"

definition aggregates :: "string list" where
  "aggregates = [''COUNT('', ''SUM('', ''AVG('', ''MAX('', ''MIN('']"

definition has_limit :: "string \<Rightarrow> bool" where
  "has_limit sql = py_in ''LIMIT'' (upper sql)"

definition has_aggregate :: "string \<Rightarrow> bool" where
  "has_aggregate sql = list_ex (\<lambda>agg. py_in agg (upper sql)) aggregates"

definition starts_with_select :: "string \<Rightarrow> bool" where
  "starts_with_select sql = prefix ''SELECT'' (upper sql)"

text \<open>Lines 332 to 340: the validator.  \<^const>\<open>None\<close> is the rejection.\<close>

definition validate :: "string \<Rightarrow> string option" where
  "validate sql =
     (if \<not> starts_with_select sql then None
      else if \<not> has_limit sql \<and> \<not> has_aggregate sql
        then Some (rstrip_chr CHR '';'' sql @ '' LIMIT 100;'')
        else Some sql)"

record env =
  gemini_enabled :: bool
  db_connected :: bool
  ai_call :: "string \<Rightarrow> ai_outcome"

definition generate_sql_with_gemini :: "env \<Rightarrow> string \<Rightarrow> string option" where
  "generate_sql_with_gemini e question =
     (if \<not> gemini_enabled e then None
      else case ai_call e question of
        AiRaises msg \<Rightarrow> None
      | AiText text \<Rightarrow> (case clean_response text of None \<Rightarrow> None | Some sql \<Rightarrow> validate sql))"

section \<open>The endpoint \<^verbatim>\<open>POST /api/database/query\<close>\<close>

text \<open>
  The storage engine, as the endpoint sees it: running a query inside the \<^verbatim>\<open>with\<close> block
  either raises an exception, whose text is kept, or yields the column names and the rows.
\<close>

datatype 'v db_outcome = DbRaises string | DbRows "string list" "'v list list"

datatype 'v json =
    JStr string
  | JNum nat
  | JCell 'v
  | JArr "'v json list"
  | JObj "(string \<times> 'v json) list"

type_synonym 'v response = "nat \<times> 'v json"

text \<open>A Python \<^verbatim>\<open>dict\<close> built from pairs: a key that comes again overwrites its value.\<close>

fun dict_set :: "string \<Rightarrow> 'a \<Rightarrow> (string \<times> 'a) list \<Rightarrow> (string \<times> 'a) list" where
  "dict_set k v [] = [(k, v)]"
| "dict_set k v ((k', v') # d) = (if k' = k then (k', v) # d else (k', v') # dict_set k v d)"

definition dict_of :: "(string \<times> 'a) list \<Rightarrow> (string \<times> 'a) list" where
  "dict_of ps = foldl (\<lambda>d (k, v). dict_set k v d) [] ps"

text \<open>A Python value in a condition: \<^verbatim>\<open>None\<close> and the empty string are false.\<close>

definition truthy :: "string option \<Rightarrow> bool" where
  "truthy x = (case x of None \<Rightarrow> False | Some s \<Rightarrow> s \<noteq> [])"

function str_of_nat :: "nat \<Rightarrow> string" where
  "str_of_nat n = (if n < 10 then [char_of (48 + n)]
                   else str_of_nat (n div 10) @ [char_of (48 + n mod 10)])"
  by pat_completeness auto
termination
  by (relation "measure id") auto

text \<open>
  The two explanations open with a pictograph, U+2728 and U+1F50D, above the range of the
  model; each is written as its UTF-8 bytes.
\<close>

definition explanation :: "string \<Rightarrow> nat \<Rightarrow> string" where
  "explanation source n =
     (if source = ''gemini''
      then [CHR 0xE2, CHR 0x9C, CHR 0xA8] @ '' Query generated by Gemini AI. Found ''
           @ str_of_nat n @ '' results.''
      else [CHR 0xF0, CHR 0x9F, CHR 0x94, CHR 0x8D] @ '' Query generated by pattern matching. Found ''
           @ str_of_nat n @ '' results.'')"

text \<open>Lines 470 to 484: the two translators in turn, and the provenance tag.\<close>

definition select_query :: "env \<Rightarrow> string \<Rightarrow> string option \<times> string" where
  "select_query e question =
     (let sql_query = None;
          source = ''unknown'';
          (sql_query, source) =
            (if gemini_enabled e
             then (let sql_query = generate_sql_with_gemini e question
                   in (sql_query, if truthy sql_query then ''gemini'' else source))
             else (sql_query, source));
          (sql_query, source) =
            (if \<not> truthy sql_query
             then (let sql_query = generate_sql_from_pattern question
                   in (sql_query, if truthy sql_query then ''pattern'' else source))
             else (sql_query, source))
      in (sql_query, source))"

definition error_body :: "string \<Rightarrow> 'v json" where
  "error_body msg = JObj [(''status'', JStr ''error''), (''message'', JStr msg)]"

definition no_candidate_message :: string where
  "no_candidate_message =
     ''Could not understand your question. Try: 'Show top 10 expensive products' or 'Count all users''
     @ [CHR 0x27]"

definition execution_error :: "string \<Rightarrow> 'v response" where
  "execution_error error_msg =
     (400, JObj [(''status'', JStr ''error''),
                 (''message'', JStr (''Query execution error: '' @ error_msg)),
                 (''suggestion'', JStr ''Try rephrasing your question or check the SQL syntax.'')])"

definition success :: "string \<Rightarrow> string \<Rightarrow> string \<Rightarrow> string list \<Rightarrow> 'v list list \<Rightarrow> 'v response" where
  "success question sql_query source columns rows =
     (let results = map (\<lambda>row. JObj (dict_of (zip columns (map JCell row)))) rows
      in (200, JObj [(''status'', JStr ''success''),
                     (''question'', JStr question),
                     (''sql_query'', JStr sql_query),
                     (''explanation'', JStr (explanation source (length results))),
                     (''results'', JArr results),
                     (''row_count'', JNum (length results)),
                     (''columns'', JArr (map JStr columns)),
                     (''source'', JStr source)]))"

text \<open>
  The request body is a JSON object; its argument here is the value under \<^verbatim>\<open>question\<close>,
  if the key is there.  The storage engine is the second argument.
\<close>

definition api_database_query :: "env \<Rightarrow> (string \<Rightarrow> 'v db_outcome) \<Rightarrow> string option \<Rightarrow> 'v response" where
  "api_database_query e db_execute data =
     (let question = strip (case data of None \<Rightarrow> [] | Some s \<Rightarrow> s)
      in if question = [] then (400, error_body ''Please provide a question'')
         else if \<not> db_connected e then (500, error_body ''Database not connected'')
         else (case select_query e question of
           (sql_query, source) \<Rightarrow>
             (case (if truthy sql_query then sql_query else None) of
                None \<Rightarrow> (400, error_body no_candidate_message)
              | Some sql \<Rightarrow>
                 (case db_execute sql of
                    DbRaises error_msg \<Rightarrow> execution_error error_msg
                  | DbRows columns rows \<Rightarrow> success question sql source columns rows))))"

text \<open>The query handed to the storage engine, with its tag, if the request gets that far.\<close>

definition executed_query :: "env \<Rightarrow> string option \<Rightarrow> (string \<times> string) option" where
  "executed_query e data =
     (let question = strip (case data of None \<Rightarrow> [] | Some s \<Rightarrow> s)
      in if question = [] then None
         else if \<not> db_connected e then None
         else (case select_query e question of
           (sql_query, source) \<Rightarrow>
             (case (if truthy sql_query then sql_query else None) of
                None \<Rightarrow> None
              | Some sql \<Rightarrow> Some (sql, source))))"

section \<open>The specification's reading, for comparison with the code\<close>

subsection \<open>An ordered list of rules, the first match wins\<close>

text \<open>
  A rule is a predicate on the normalised question and the query text it produces.  The list
  follows the specification's priority order; its items 11 to 17 stand for the nine rules the
  source has between the price filters and the brand names, so the list has 21 entries.
\<close>

type_synonym translation_rule = "(string \<Rightarrow> bool) \<times> (string \<Rightarrow> string)"

definition matched_group :: "rx \<Rightarrow> nat \<Rightarrow> string \<Rightarrow> string" where
  "matched_group r k q = fmt_group (case re_search r q of None \<Rightarrow> None | Some m \<Rightarrow> group m k)"

definition first_in :: "string list \<Rightarrow> string \<Rightarrow> string" where
  "first_in vocabulary q = (case find (\<lambda>w. py_in w q) vocabulary of None \<Rightarrow> [] | Some w \<Rightarrow> w)"

definition translation_rules :: "translation_rule list" where
  "translation_rules =
    [(found rx_tables, \<lambda>q. sql_tables),
     (found rx_describe, \<lambda>q. sql_describe),
     (found rx_count_products, \<lambda>q. sql_count_products),
     (\<lambda>q. found rx_list_products q \<and> \<not> py_in ''category'' q, \<lambda>q. sql_list_products),
     (found rx_expensive, \<lambda>q. sql_expensive (get_limit q ''10'')),
     (found rx_cheapest, \<lambda>q. sql_cheapest (get_limit q ''10'')),
     (found rx_rated, \<lambda>q. sql_rated (get_limit q ''10'')),
     (found rx_average, \<lambda>q. sql_average),
     (found rx_under, \<lambda>q. sql_under (matched_group rx_under 1 q)),
     (found rx_above, \<lambda>q. sql_above (matched_group rx_above 2 q)),
     (found rx_count_users, \<lambda>q. sql_count_users),
     (found rx_list_users, \<lambda>q. sql_list_users),
     (found rx_count_orders, \<lambda>q. sql_count_orders),
     (found rx_revenue, \<lambda>q. sql_revenue),
     (found rx_recent_orders, \<lambda>q. sql_recent_orders (get_limit q ''10'')),
     (found rx_categor, \<lambda>q. sql_categor),
     (found rx_brands, \<lambda>q. sql_brands),
     (found rx_popular, \<lambda>q. sql_popular),
     (found rx_user_activity, \<lambda>q. sql_user_activity),
     (\<lambda>q. list_ex (\<lambda>brand. py_in brand q) brands, \<lambda>q. sql_brand (first_in brands q)),
     (\<lambda>q. list_ex (\<lambda>cat. py_in cat q) categories, \<lambda>q. sql_category (first_in categories q))]"

text \<open>The rules are tried in turn; the first whose predicate holds gives the result.\<close>

fun first_match :: "translation_rule list \<Rightarrow> string \<Rightarrow> string option" where
  "first_match [] q = None"
| "first_match ((applies, template) # rules) q =
     (if applies q then Some (template q) else first_match rules q)"

definition translate_by_rule :: "string \<Rightarrow> string option" where
  "translate_by_rule q = first_match translation_rules q"

subsection \<open>The numeric limit\<close>

text \<open>The specification's words: the first run of digits anywhere in the question.\<close>

definition first_digit_run :: "string \<Rightarrow> string" where
  "first_digit_run q = takeWhile is_digit (dropWhile (\<lambda>c. \<not> is_digit c) q)"

definition first_digit_run_or :: "string \<Rightarrow> string \<Rightarrow> string" where
  "first_digit_run_or dflt q = (if first_digit_run q = [] then dflt else first_digit_run q)"

text \<open>
  The words of a text: its maximal runs of word characters.  A number of the text is a word
  made of digits only.
\<close>

function word_tokens :: "string \<Rightarrow> string list" where
  "word_tokens [] = []"
| "word_tokens (c # cs) =
     (if is_word c then (c # takeWhile is_word cs) # word_tokens (dropWhile is_word cs)
      else word_tokens cs)"
  by pat_completeness auto
termination
  by (relation "measure length") (auto simp: length_dropWhile_le less_Suc_eq_le)

definition first_number :: "string \<Rightarrow> string option" where
  "first_number q = find (list_all is_digit) (word_tokens q)"

subsection \<open>Shape of a query text\<close>




text \<open>A field of a JSON object.\<close>

fun field :: "string \<Rightarrow> 'v json \<Rightarrow> 'v json option" where
  "field k (JObj fs) = map_of fs k"
| "field k j = None"

subsection \<open>Scenarios\<close>

text \<open>The service without an API key, with a service that fails, and with one that answers.\<close>

definition rules_only :: env where
  "rules_only = \<lparr>gemini_enabled = False, db_connected = True, ai_call = (\<lambda>q. AiRaises [])\<rparr>"

definition ai_failing :: env where
  "ai_failing = \<lparr>gemini_enabled = True, db_connected = True,
     ai_call = (\<lambda>q. AiRaises ''504 Deadline Exceeded'')\<rparr>"

definition ai_answering :: "string \<Rightarrow> env" where
  "ai_answering text = \<lparr>gemini_enabled = True, db_connected = True, ai_call = (\<lambda>q. AiText text)\<rparr>"

definition db_failing :: "string \<Rightarrow> nat db_outcome" where
  "db_failing sql = DbRaises ''(sqlite3.OperationalError) no such table: users''"

definition db_answering :: "string \<Rightarrow> nat db_outcome" where
  "db_answering sql = DbRows [''total_users''] [[3]]"

section \<open>Characters bit by bit\<close>

text \<open>
  Adding 32 flips bit 5 and carries into bits 6 and 7; subtracting 32 flips bit 5 and
  borrows from them, and stops at zero.  These equations are the ones used to evaluate
  \<^const>\<open>lower\<close> and \<^const>\<open>upper\<close> on concrete texts.
\<close>

lemma up32_Char:
  "up32 (Char b0 b1 b2 b3 b4 b5 b6 b7) = Char b0 b1 b2 b3 b4 (\<not> b5) (b6 \<noteq> b5) (b7 \<noteq> (b6 \<and> b5))"
  by (cases b0; cases b1; cases b2; cases b3; cases b4; cases b5; cases b6; cases b7;
      simp add: up32_def char_of_def bit_Suc_0_iff)

lemma down32_Char:
  "down32 (Char b0 b1 b2 b3 b4 b5 b6 b7) =
     (if \<not> b5 \<and> \<not> b6 \<and> \<not> b7 then CHR 0x00
      else Char b0 b1 b2 b3 b4 (\<not> b5) (b6 \<noteq> (\<not> b5)) (b7 \<noteq> (\<not> b5 \<and> \<not> b6)))"
  by (cases b0; cases b1; cases b2; cases b3; cases b4; cases b5; cases b6; cases b7;
      simp add: down32_def char_of_def bit_Suc_0_iff)

declare up32_Char [code] down32_Char [code]

section \<open>Facts about strings\<close>

lemma py_in_iff: "py_in sub s \<longleftrightarrow> (\<exists>a b. s = a @ sub @ b)"
proof (induction s)
  case Nil
  then show ?case by auto
next
  case (Cons c cs)
  show ?case
  proof
    assume "py_in sub (c # cs)"
    then consider "prefix sub (c # cs)" | "py_in sub cs" by auto
    then show "\<exists>a b. c # cs = a @ sub @ b"
    proof cases
      case 1
      then obtain b where "c # cs = sub @ b" by (auto simp: prefix_def)
      then have "c # cs = [] @ sub @ b" by simp
      then show ?thesis by blast
    next
      case 2
      with Cons.IH obtain a b where "cs = a @ sub @ b" by blast
      then have "c # cs = (c # a) @ sub @ b" by simp
      then show ?thesis by blast
    qed
  next
    assume "\<exists>a b. c # cs = a @ sub @ b"
    then obtain a b where ab: "c # cs = a @ sub @ b" by blast
    show "py_in sub (c # cs)"
    proof (cases a)
      case Nil
      with ab have "prefix sub (c # cs)" by (simp add: prefix_def)
      then show ?thesis by simp
    next
      case (Cons x a')
      with ab have "cs = a' @ sub @ b" by simp
      with Cons.IH have "py_in sub cs" by blast
      then show ?thesis by simp
    qed
  qed
qed



lemma upper_append: "upper (a @ b) = upper a @ upper b"
  by (simp add: upper_def)

lemma has_limit_appended: "has_limit (s @ '' LIMIT 100;'')"
proof -
  have "upper '' LIMIT 100;'' = '' '' @ ''LIMIT'' @ '' 100;''" by code_simp
  then have "upper (s @ '' LIMIT 100;'') = (upper s @ '' '') @ ''LIMIT'' @ '' 100;''"
    by (simp only: upper_append append_assoc)
  then show ?thesis unfolding has_limit_def py_in_iff by blast
qed

section \<open>Facts about the translators\<close>

lemma brand_loop_Some:
  "brand_loop bs q = Some s \<Longrightarrow> \<exists>b\<in>set bs. py_in b q \<and> s = sql_brand b"
  by (induction bs) (auto split: if_splits)

lemma category_loop_Some:
  "category_loop cs q = Some s \<Longrightarrow> \<exists>c\<in>set cs. py_in c q \<and> s = sql_category c"
  by (induction cs) (auto split: if_splits)

lemmas sql_defs = sql_tables_def sql_describe_def sql_count_products_def sql_list_products_def
  sql_expensive_def sql_cheapest_def sql_rated_def sql_average_def sql_under_def sql_above_def
  sql_count_users_def sql_list_users_def sql_count_orders_def sql_revenue_def
  sql_recent_orders_def sql_categor_def sql_brands_def sql_popular_def sql_user_activity_def
  sql_brand_def sql_category_def

lemma from_pattern_select: "from_pattern q = Some s \<Longrightarrow> \<exists>rest. s = ''SELECT '' @ rest"
  unfolding from_pattern_def
  by (auto split: if_splits option.splits dest!: brand_loop_Some category_loop_Some
      simp: sql_defs)

lemma starts_with_select_literal: "starts_with_select (''SELECT '' @ rest)"
proof -
  have h: "upper ''SELECT '' = ''SELECT ''" by code_simp
  have "upper (''SELECT '' @ rest) = ''SELECT '' @ upper rest"
    by (simp only: upper_append h)
  then show ?thesis unfolding starts_with_select_def by simp
qed

lemma generate_sql_from_pattern_select:
  "generate_sql_from_pattern question = Some s \<Longrightarrow> starts_with_select s \<and> s \<noteq> []"
  unfolding generate_sql_from_pattern_def
  by (auto dest!: from_pattern_select simp: starts_with_select_literal simp del: append.simps)

lemma upper_char_semi: "upper_char CHR '';'' = '';''"
  by code_simp

lemma upper_rstrip:
  "\<exists>n. upper s = upper (rstrip_chr CHR '';'' s) @ replicate n CHR '';''"
proof -
  have "\<exists>n. s = rstrip_chr CHR '';'' s @ replicate n CHR '';''"
  proof (induction s rule: rev_induct)
    case Nil
    then show ?case by (simp add: rstrip_chr_def)
  next
    case (snoc x xs)
    show ?case
    proof (cases "x = CHR '';''")
      case True
      from snoc obtain n where n: "xs = rstrip_chr CHR '';'' xs @ replicate n CHR '';''" by blast
      have "rstrip_chr CHR '';'' (xs @ [x]) = rstrip_chr CHR '';'' xs"
        using True by (simp add: rstrip_chr_def)
      moreover have "xs @ [x] = rstrip_chr CHR '';'' xs @ replicate (Suc n) CHR '';''"
        using n True by (metis append.assoc replicate_Suc replicate_append_same)
      ultimately show ?thesis by metis
    next
      case False
      then have "rstrip_chr CHR '';'' (xs @ [x]) = xs @ [x]" by (simp add: rstrip_chr_def)
      then have "xs @ [x] = rstrip_chr CHR '';'' (xs @ [x]) @ replicate 0 CHR '';''" by simp
      then show ?thesis by blast
    qed
  qed
  then obtain n where "s = rstrip_chr CHR '';'' s @ replicate n CHR '';''" by blast
  then have "upper s = upper (rstrip_chr CHR '';'' s) @ upper (replicate n CHR '';'')"
    by (metis upper_append)
  moreover have "upper (replicate n CHR '';'') = replicate n CHR '';''"
    by (induction n) (simp_all add: upper_def upper_char_semi)
  ultimately show ?thesis by metis
qed

lemma starts_with_select_rstrip:
  assumes "starts_with_select s"
  shows "starts_with_select (rstrip_chr CHR '';'' s @ t)"
proof -
  obtain n where n: "upper s = upper (rstrip_chr CHR '';'' s) @ replicate n CHR '';''"
    using upper_rstrip by blast
  let ?r = "upper (rstrip_chr CHR '';'' s)"
  from assms n have "prefix ''SELECT'' (?r @ replicate n CHR '';'')"
    by (simp add: starts_with_select_def)
  then consider "prefix ''SELECT'' ?r"
    | us where "''SELECT'' = ?r @ us" "prefix us (replicate n CHR '';'')" "us \<noteq> []"
    unfolding prefix_append by (metis append_Nil2 prefix_order.order_refl)
  then have "prefix ''SELECT'' ?r"
  proof cases
    case 1
    then show ?thesis .
  next
    case 2
    from 2(2,3) have "hd us = CHR '';''"
      by (cases us; cases n) (auto simp: prefix_def)
    with 2(3) have "CHR '';'' \<in> set us" by (cases us) auto
    then have "CHR '';'' \<in> set (?r @ us)" by simp
    with 2(1) have "CHR '';'' \<in> set ''SELECT''" by metis
    then show ?thesis by simp
  qed
  then show ?thesis by (simp add: starts_with_select_def upper_append)
qed

lemma validate_Some:
  "validate sql = Some out \<Longrightarrow> starts_with_select out \<and> (has_limit out \<or> has_aggregate out)"
  by (auto simp: validate_def has_limit_appended starts_with_select_rstrip split: if_splits)

lemma generate_sql_with_gemini_Some:
  "generate_sql_with_gemini e question = Some out \<Longrightarrow>
     starts_with_select out \<and> (has_limit out \<or> has_aggregate out)"
  by (auto simp: generate_sql_with_gemini_def dest: validate_Some
      split: if_splits ai_outcome.splits option.splits)

lemma starts_with_select_nonempty: "starts_with_select s \<Longrightarrow> s \<noteq> []"
  by (auto simp: starts_with_select_def upper_def)

lemma select_query_eq:
  "select_query e question =
     (if gemini_enabled e \<and> generate_sql_with_gemini e question \<noteq> None
      then (generate_sql_with_gemini e question, ''gemini'')
      else (generate_sql_from_pattern question,
            if generate_sql_from_pattern question \<noteq> None then ''pattern'' else ''unknown''))"
proof -
  have t1: "truthy (generate_sql_with_gemini e question) \<longleftrightarrow> generate_sql_with_gemini e question \<noteq> None"
    using generate_sql_with_gemini_Some starts_with_select_nonempty
    by (cases "generate_sql_with_gemini e question") (auto simp: truthy_def)
  have t2: "truthy (generate_sql_from_pattern question) \<longleftrightarrow> generate_sql_from_pattern question \<noteq> None"
    using generate_sql_from_pattern_select
    by (cases "generate_sql_from_pattern question") (auto simp: truthy_def)
  show ?thesis
proof -
    have "\<not> truthy None" by (simp add: truthy_def)
    then show ?thesis by (auto simp add: select_query_def Let_def t1 t2)
  qed
qed

lemma executed_query_Some:
  assumes "executed_query e data = Some (sql, source)"
  shows "strip (case data of None \<Rightarrow> [] | Some s \<Rightarrow> s) \<noteq> [] \<and> db_connected e \<and>
     ((source = ''gemini'' \<and> gemini_enabled e \<and>
       generate_sql_with_gemini e (strip (case data of None \<Rightarrow> [] | Some s \<Rightarrow> s)) = Some sql) \<or>
      (source = ''pattern'' \<and>
       generate_sql_with_gemini e (strip (case data of None \<Rightarrow> [] | Some s \<Rightarrow> s)) = None \<and>
       generate_sql_from_pattern (strip (case data of None \<Rightarrow> [] | Some s \<Rightarrow> s)) = Some sql))"
  using assms
  by (auto simp: executed_query_def Let_def select_query_eq generate_sql_with_gemini_def
      split: if_splits option.splits)

lemma executed_query_select:
  "executed_query e data = Some (sql, source) \<Longrightarrow> starts_with_select sql"
  using executed_query_Some generate_sql_with_gemini_Some generate_sql_from_pattern_select
  by blast

lemma api_database_query_executes:
  assumes "executed_query e data = Some (sql, source)"
  shows "api_database_query e db_execute data =
     (case db_execute sql of
        DbRaises error_msg \<Rightarrow> execution_error error_msg
      | DbRows columns rows \<Rightarrow>
          success (strip (case data of None \<Rightarrow> [] | Some s \<Rightarrow> s)) sql source columns rows)"
  using assms
  by (auto simp: executed_query_def api_database_query_def Let_def
      split: if_splits option.splits prod.splits)

lemma api_database_query_not_executed:
  assumes "executed_query e data = None"
  shows "api_database_query e db_execute data =
     (if strip (case data of None \<Rightarrow> [] | Some s \<Rightarrow> s) = []
      then (400, error_body ''Please provide a question'')
      else if \<not> db_connected e then (500, error_body ''Database not connected'')
      else (400, error_body no_candidate_message))"
  using assms
  by (auto simp: executed_query_def api_database_query_def Let_def
      split: if_splits option.splits prod.splits)

lemma brand_loop_find:
  "brand_loop bs q = (case find (\<lambda>w. py_in w q) bs of None \<Rightarrow> None | Some b \<Rightarrow> Some (sql_brand b))"
  by (induction bs) auto

lemma category_loop_find:
  "category_loop cs q = (case find (\<lambda>w. py_in w q) cs of None \<Rightarrow> None | Some c \<Rightarrow> Some (sql_category c))"
  by (induction cs) auto

lemma list_ex_find: "list_ex P xs \<longleftrightarrow> find P xs \<noteq> None"
  by (induction xs) auto

lemma first_match_find:
  "first_match rules q =
     (case find (\<lambda>rule. fst rule q) rules of None \<Rightarrow> None | Some rule \<Rightarrow> Some (snd rule q))"
  by (induction rules q rule: first_match.induct) auto

lemma under_case:
  "(case re_search rx_under q of
      Some price_match \<Rightarrow> Some (sql_under (fmt_group (group price_match 1)))
    | None \<Rightarrow> rest)
   = (if found rx_under q then Some (sql_under (matched_group rx_under 1 q)) else rest)"
  by (cases "re_search rx_under q") (simp_all add: found_def matched_group_def)

lemma above_case:
  "(case re_search rx_above q of
      Some price_match \<Rightarrow> Some (sql_above (fmt_group (group price_match 2)))
    | None \<Rightarrow> rest)
   = (if found rx_above q then Some (sql_above (matched_group rx_above 2 q)) else rest)"
  by (cases "re_search rx_above q") (simp_all add: found_def matched_group_def)

lemma loops_case:
  "(case brand_loop brands q of
      Some sql \<Rightarrow> Some sql
    | None \<Rightarrow> category_loop categories q)
   = (if list_ex (\<lambda>brand. py_in brand q) brands then Some (sql_brand (first_in brands q))
      else if list_ex (\<lambda>cat. py_in cat q) categories
        then Some (sql_category (first_in categories q))
        else None)"
  by (simp add: brand_loop_find category_loop_find list_ex_find first_in_def split: option.splits)

lemma from_pattern_first_match: "from_pattern q = translate_by_rule q"
  unfolding from_pattern_def under_case above_case loops_case
    translate_by_rule_def translation_rules_def first_match.simps
  by (rule refl)

lemma all_less_take: "k \<le> length xs \<Longrightarrow> list_all P (take k xs) \<Longrightarrow> \<forall>j<k. P (xs ! j)"
  by (simp add: list_all_length)

subsection \<open>The numeric limit\<close>

lemma is_digit_word: "is_digit c \<Longrightarrow> is_word c"
  by (simp add: is_word_def is_numeric_def)

lemma bnd_after_capture:
  "concat (map (matches Bnd)
      (map (\<lambda>(p, r, g'). (p, r, g'(k \<mapsto> f r))) (map (\<lambda>(p, r). (p, r, g)) sts)))
   = map (\<lambda>(p, r). (p, r, g(k \<mapsto> f r))) (filter (\<lambda>(p, r). at_boundary p r) sts)"
  by (induction sts) auto

lemma star_ends_digit_boundary:
  "filter (\<lambda>(p, r). at_boundary p r) (star_ends CDigit True xs)
   = (if at_boundary True (dropWhile is_digit xs) then [(True, dropWhile is_digit xs)] else [])"
proof (induction xs)
  case Nil
  then show ?case by (simp add: at_boundary_def)
next
  case (Cons x xs)
  show ?case
  proof (cases "is_digit x")
    case True
    then have "is_word x" by (rule is_digit_word)
    with True Cons show ?thesis by (simp add: at_boundary_def)
  next
    case False
    then show ?thesis by simp
  qed
qed

lemma take_takeWhile:
  "take (Suc (length xs) - length (dropWhile P xs)) (x # xs) = x # takeWhile P xs"
proof -
  have "length xs = length (takeWhile P xs) + length (dropWhile P xs)"
    by (metis length_append takeWhile_dropWhile_id)
  then have "Suc (length xs) - length (dropWhile P xs) = Suc (length (takeWhile P xs))"
    by simp
  moreover have "take (length (takeWhile P xs)) xs = takeWhile P xs"
    by (metis append_eq_conv_conj takeWhile_dropWhile_id)
  ultimately show ?thesis by simp
qed

lemma matches_rx_limit:
  "matches rx_limit (pw, rest, g) =
     (case rest of
        [] \<Rightarrow> []
      | x # xs \<Rightarrow>
          if \<not> pw \<and> is_digit x \<and> at_boundary True (dropWhile is_digit xs)
          then [(True, dropWhile is_digit xs, g(1 \<mapsto> x # takeWhile is_digit xs))]
          else [])"
proof (cases rest)
  case Nil
  then show ?thesis by (simp add: rx_limit_def plus_ends_def)
next
  case (Cons x xs)
  show ?thesis
  proof (cases "at_boundary pw (x # xs)")
    case False
    then have "pw \<or> \<not> is_digit x"
      using is_digit_word [of x] by (auto simp: at_boundary_def)
    with False Cons show ?thesis by (auto simp: rx_limit_def)
  next
    case True
    show ?thesis
    proof (cases "is_digit x")
      case d: False
      with True Cons show ?thesis by (simp add: rx_limit_def plus_ends_def)
    next
      case d: True
      then have w: "is_word x" by (rule is_digit_word)
      with True have npw: "\<not> pw" by (simp add: at_boundary_def)
      have "matches rx_limit (pw, x # xs, g) =
          concat (map (matches Bnd)
            (map (\<lambda>(p, r, g'). (p, r, g'(1 \<mapsto> take (length (x # xs) - length r) (x # xs))))
               (map (\<lambda>(p, r). (p, r, g)) (star_ends CDigit True xs))))"
        using True d w by (simp add: rx_limit_def plus_ends_def)
      also have "\<dots> = map (\<lambda>(p, r). (p, r, g(1 \<mapsto> take (length (x # xs) - length r) (x # xs))))
            (filter (\<lambda>(p, r). at_boundary p r) (star_ends CDigit True xs))"
        by (rule bnd_after_capture)
      also have "\<dots> = (if at_boundary True (dropWhile is_digit xs)
          then [(True, dropWhile is_digit xs, g(1 \<mapsto> x # takeWhile is_digit xs))] else [])"
        unfolding star_ends_digit_boundary using take_takeWhile [of xs is_digit x] by simp
      finally show ?thesis using Cons npw d by simp
    qed
  qed
qed

lemma search_limit_after_word:
  "search_from rx_limit True q = search_from rx_limit False (dropWhile is_word q)"
proof (induction q)
  case Nil
  then show ?case by (simp add: matches_rx_limit)
next
  case (Cons x xs)
  show ?case
  proof (cases "is_word x")
    case True
    with Cons show ?thesis by (simp add: matches_rx_limit)
  next
    case False
    then have "\<not> is_digit x" using is_digit_word by blast
    with False show ?thesis by (simp add: matches_rx_limit)
  qed
qed

lemma digit_token:
  "list_all is_digit (takeWhile is_word cs) \<longleftrightarrow> at_boundary True (dropWhile is_digit cs)"
  "at_boundary True (dropWhile is_digit cs) \<Longrightarrow> takeWhile is_word cs = takeWhile is_digit cs"
proof (induction cs)
  case Nil
  { case 1 show ?case by (simp add: at_boundary_def) }
  { case 2 show ?case by simp }
next
  case (Cons x xs)
  { case 1 show ?case using Cons.IH(1) is_digit_word [of x]
      by (cases "is_digit x"; cases "is_word x") (auto simp: at_boundary_def) }
  { case 2 then show ?case using Cons.IH(2) is_digit_word [of x]
      by (cases "is_digit x"; cases "is_word x") (auto simp: at_boundary_def) }
qed

lemma search_limit_tokens:
  "map_option (\<lambda>m. group m 1) (search_from rx_limit False q) = map_option Some (first_number q)"
proof (induction q rule: word_tokens.induct)
  case 1
  show ?case by (simp add: matches_rx_limit first_number_def)
next
  case (2 c cs)
  show ?case
  proof (cases "is_word c")
    case False
    then have "\<not> is_digit c" using is_digit_word by blast
    with False 2(2) show ?thesis
      by (simp add: matches_rx_limit first_number_def)
  next
    case True
    show ?thesis
    proof (cases "is_digit c \<and> at_boundary True (dropWhile is_digit cs)")
      case t: True
      then have "list_all is_digit (takeWhile is_word cs)"
        and "takeWhile is_word cs = takeWhile is_digit cs"
        using digit_token [of cs] by blast+
      with t True show ?thesis
        by (simp add: matches_rx_limit first_number_def group_def)
    next
      case f: False
      then have nd: "\<not> list_all is_digit (c # takeWhile is_word cs)"
        using digit_token(1) [of cs] by auto
      have s: "search_from rx_limit False (c # cs)
          = search_from rx_limit False (dropWhile is_word cs)"
        using f True by (auto simp: matches_rx_limit search_limit_after_word)
      have n: "first_number (c # cs) = first_number (dropWhile is_word cs)"
        using True nd by (auto simp: first_number_def)
      show ?thesis unfolding s n by (rule 2(1) [OF True])
    qed
  qed
qed

lemma get_limit_number:
  "get_limit q dflt = (case first_number q of None \<Rightarrow> dflt | Some n \<Rightarrow> n)"
proof (cases "search_from rx_limit False q")
  case None
  with search_limit_tokens [of q] have "first_number q = None" by simp
  with None show ?thesis by (simp add: get_limit_def re_search_def)
next
  case (Some m)
  with search_limit_tokens [of q] obtain n where "first_number q = Some n" "group m 1 = Some n"
    by (cases "first_number q") auto
  with Some show ?thesis by (simp add: get_limit_def re_search_def fmt_group_def)
qed

subsection \<open>Shape of the rule-based translator's queries\<close>

























section \<open>The claims\<close>

text \<open>
  C2.  The question \<^verbatim>\<open>show top 5 expensive products\<close> is matched by the pattern of the rule
  for expensive products, and the limit read from it is 5; but the rule for listing products,
  which stands before it, matches the question as well, and the translator returns that rule's
  listing of 100 rows instead of the five most expensive products.
\<close>

theorem show_top_5_expensive_products:
  "found rx_expensive ''show top 5 expensive products'' \<and>
   get_limit ''show top 5 expensive products'' ''10'' = ''5'' \<and>
   found rx_list_products ''show top 5 expensive products'' \<and>
   generate_sql_from_pattern ''show top 5 expensive products''
     = Some ''SELECT id, name, price, brand, category, rating FROM products LIMIT 100;''"
  by code_simp



text \<open>
  C5.  A candidate whose upper-cased text does not start with SELECT is rejected by the
  validator; when it is what is left of the service's answer after trimming and cleaning, the
  AI translator yields no candidate; and no request hands such a text to the storage engine,
  whatever the service and the question are.
\<close>

theorem validate_rejects_non_select:
  "\<not> starts_with_select sql \<Longrightarrow>
     validate sql = None \<and>
     (\<forall>e question text. ai_call e question = AiText text \<and> clean_response text = Some sql
        \<longrightarrow> generate_sql_with_gemini e question = None) \<and>
     (\<forall>e data source. executed_query e data \<noteq> Some (sql, source))"
  using executed_query_select
  by (auto simp: validate_def generate_sql_with_gemini_def)

theorem validate_rejects_non_select_witness:
  "\<not> starts_with_select ''DROP TABLE users;'' \<and>
   validate ''DROP TABLE users;'' = None \<and>
   generate_sql_with_gemini (ai_answering ''DROP TABLE users;'') ''count users'' = None \<and>
   executed_query (ai_answering ''DROP TABLE users;'') (Some ''count users'')
     \<noteq> Some (''DROP TABLE users;'', ''gemini'')"
proof -
  have h: "\<not> starts_with_select ''DROP TABLE users;''" by code_simp
  have c: "clean_response ''DROP TABLE users;'' = Some ''DROP TABLE users;''" by code_simp
  have a: "ai_call (ai_answering ''DROP TABLE users;'') ''count users'' = AiText ''DROP TABLE users;''"
    by (simp add: ai_answering_def)
  from validate_rejects_non_select [OF h] h c a show ?thesis by blast
qed



text \<open>
  C7, as stated, fails: with no API key the question \<^verbatim>\<open>count users\<close> is answered by the rule-based
  translator, and the successful response carries the tag \<^verbatim>\<open>pattern\<close>, not \<^verbatim>\<open>rule\<close>.
\<close>

theorem source_tag_counterexample:
  "generate_sql_from_pattern ''count users'' = Some sql_count_users \<and>
   fst (api_database_query rules_only db_answering (Some ''count users'')) = 200 \<and>
   field ''status'' (snd (api_database_query rules_only db_answering (Some ''count users'')))
     = Some (JStr ''success'') \<and>
   field ''source'' (snd (api_database_query rules_only db_answering (Some ''count users'')))
     = Some (JStr ''pattern'') \<and>
   field ''source'' (snd (api_database_query rules_only db_answering (Some ''count users'')))
     \<noteq> Some (JStr ''rule'')"
  by code_simp

text \<open>
  C7, amended.  A response whose status field is \<^verbatim>\<open>success\<close> has HTTP status 200 and exactly the
  fields status, question, sql_query, explanation, results, row_count, columns and source, in
  this order; source is \<^verbatim>\<open>gemini\<close> when the AI translator produced the query and \<^verbatim>\<open>pattern\<close> when
  the AI translator produced none and the rule-based translator produced it.
\<close>

theorem success_body:
  "api_database_query e db_execute data = (code, body) \<Longrightarrow>
   field ''status'' body = Some (JStr ''success'') \<Longrightarrow>
     code = 200 \<and>
     (\<exists>question sql_query explanation results row_count columns source.
        body = JObj [(''status'', JStr ''success''),
                     (''question'', JStr question),
                     (''sql_query'', JStr sql_query),
                     (''explanation'', JStr explanation),
                     (''results'', JArr results),
                     (''row_count'', JNum row_count),
                     (''columns'', JArr (map JStr columns)),
                     (''source'', JStr source)] \<and>
        row_count = length results \<and>
        ((source = ''gemini'' \<and> generate_sql_with_gemini e question = Some sql_query) \<or>
         (source = ''pattern'' \<and> generate_sql_with_gemini e question = None \<and>
          generate_sql_from_pattern question = Some sql_query)))"
proof -
  assume r: "api_database_query e db_execute data = (code, body)"
    and s: "field ''status'' body = Some (JStr ''success'')"
  let ?q = "strip (case data of None \<Rightarrow> [] | Some s \<Rightarrow> s)"
  show ?thesis
  proof (cases "executed_query e data")
    case None
    from api_database_query_not_executed [OF None, of db_execute] r s
    show ?thesis by (auto simp: error_body_def split: if_splits)
  next
    case (Some x)
    obtain sql source where x: "x = (sql, source)" by (cases x)
    note ex = Some [unfolded x]
    note facts = executed_query_Some [OF ex]
    show ?thesis
    proof (cases "db_execute sql")
      case (DbRaises m)
      with api_database_query_executes [OF ex, of db_execute] r s
      show ?thesis by (auto simp: execution_error_def)
    next
      case (DbRows columns rows)
      with api_database_query_executes [OF ex, of db_execute] r
      have "(code, body) = success ?q sql source columns rows" by simp
      with facts show ?thesis
        by (auto simp: success_def Let_def)
    qed
  qed
qed

theorem success_body_witness:
  "api_database_query rules_only db_answering (Some ''count users'') =
     (200, JObj [(''status'', JStr ''success''),
                 (''question'', JStr ''count users''),
                 (''sql_query'', JStr ''SELECT COUNT(*) as total_users FROM users;''),
                 (''explanation'', JStr (explanation ''pattern'' 1)),
                 (''results'', JArr [JObj [(''total_users'', JCell 3)]]),
                 (''row_count'', JNum 1),
                 (''columns'', JArr [JStr ''total_users'']),
                 (''source'', JStr ''pattern'')]) \<and>
   (\<exists>question sql_query.
      generate_sql_with_gemini rules_only question = None \<and>
      generate_sql_from_pattern question = Some sql_query)"
proof -
  have r: "api_database_query rules_only db_answering (Some ''count users'') =
     (200, JObj [(''status'', JStr ''success''),
                 (''question'', JStr ''count users''),
                 (''sql_query'', JStr ''SELECT COUNT(*) as total_users FROM users;''),
                 (''explanation'', JStr (explanation ''pattern'' 1)),
                 (''results'', JArr [JObj [(''total_users'', JCell 3)]]),
                 (''row_count'', JNum 1),
                 (''columns'', JArr [JStr ''total_users'']),
                 (''source'', JStr ''pattern'')])"
    by code_simp
  have s: "field ''status'' (JObj [(''status'', JStr ''success''),
                 (''question'', JStr ''count users''),
                 (''sql_query'', JStr ''SELECT COUNT(*) as total_users FROM users;''),
                 (''explanation'', JStr (explanation ''pattern'' 1)),
                 (''results'', JArr [JObj [(''total_users'', JCell (3::nat))]]),
                 (''row_count'', JNum 1),
                 (''columns'', JArr [JStr ''total_users'']),
                 (''source'', JStr ''pattern'')]) = Some (JStr ''success'')"
    by simp
  from success_body [OF r s] r show ?thesis
    by (auto simp: rules_only_def generate_sql_with_gemini_def)
qed

text \<open>
  C6, as stated, fails: the service raises, the rules answer \<^verbatim>\<open>count users\<close>, the storage engine
  rejects the query, and the response is the execution error: neither a success nor the
  no-candidate error.
\<close>

theorem ai_failure_counterexample:
  "gemini_enabled ai_failing \<and>
   ai_call ai_failing ''count users'' = AiRaises ''504 Deadline Exceeded'' \<and>
   api_database_query ai_failing db_failing (Some ''count users'')
     = execution_error ''(sqlite3.OperationalError) no such table: users'' \<and>
   field ''status'' (snd (api_database_query ai_failing db_failing (Some ''count users'')))
     \<noteq> Some (JStr ''success'') \<and>
   api_database_query ai_failing db_failing (Some ''count users'')
     \<noteq> (400, error_body no_candidate_message)"
  by code_simp

text \<open>
  C6, amended.  When the endpoint calls the AI translator and the external call raises, the
  response is the one the endpoint gives with the AI translator switched off, and the text of
  the exception is nowhere in it: the no-candidate error with status 400 when no rule matches,
  the execution error when the storage engine rejects the rule's query, and otherwise a success
  with the tag \<^verbatim>\<open>pattern\<close>.
\<close>

theorem ai_failure_falls_back:
  assumes "question = strip (case data of None \<Rightarrow> [] | Some s \<Rightarrow> s)"
    and "question \<noteq> []" and "db_connected e" and "gemini_enabled e"
    and "ai_call e question = AiRaises msg"
  shows "api_database_query e db_execute data
           = api_database_query (e\<lparr>gemini_enabled := False\<rparr>) db_execute data \<and>
         api_database_query e db_execute data =
           (case generate_sql_from_pattern question of
              None \<Rightarrow> (400, error_body no_candidate_message)
            | Some sql \<Rightarrow>
                (case db_execute sql of
                   DbRaises error_msg \<Rightarrow> execution_error error_msg
                 | DbRows columns rows \<Rightarrow> success question sql ''pattern'' columns rows))"
proof -
  have g: "generate_sql_with_gemini e question = None"
    using assms by (simp add: generate_sql_with_gemini_def)
  have g': "generate_sql_with_gemini (e\<lparr>gemini_enabled := False\<rparr>) question = None"
    by (simp add: generate_sql_with_gemini_def)
  have s: "select_query e question = select_query (e\<lparr>gemini_enabled := False\<rparr>) question"
    by (simp add: select_query_eq g g')
  have 1: "api_database_query e db_execute data
           = api_database_query (e\<lparr>gemini_enabled := False\<rparr>) db_execute data"
    using assms(1) s by (simp add: api_database_query_def Let_def)
  have 2: "api_database_query e db_execute data =
           (case generate_sql_from_pattern question of
              None \<Rightarrow> (400, error_body no_candidate_message)
            | Some sql \<Rightarrow>
                (case db_execute sql of
                   DbRaises error_msg \<Rightarrow> execution_error error_msg
                 | DbRows columns rows \<Rightarrow> success question sql ''pattern'' columns rows))"
  proof -
    have sq: "select_query e question =
        (generate_sql_from_pattern question,
         if generate_sql_from_pattern question \<noteq> None then ''pattern'' else ''unknown'')"
      by (simp add: select_query_eq g)
    have A: "api_database_query e db_execute data =
        (case select_query e question of
           (sql_query, source) \<Rightarrow>
             (case (if truthy sql_query then sql_query else None) of
                None \<Rightarrow> (400, error_body no_candidate_message)
              | Some sql \<Rightarrow>
                 (case db_execute sql of
                    DbRaises error_msg \<Rightarrow> execution_error error_msg
                  | DbRows columns rows \<Rightarrow> success question sql source columns rows)))"
    proof -
      have q: "strip (case data of None \<Rightarrow> [] | Some s \<Rightarrow> s) = question"
        using assms(1) by simp
      show ?thesis
        using assms(2,3) by (simp add: api_database_query_def Let_def q)
    qed
    show ?thesis
      unfolding A sq using generate_sql_from_pattern_select [of question]
      by (auto simp: truthy_def split: option.splits db_outcome.splits)
  qed
  from 1 2 show ?thesis by blast
qed

theorem ai_failure_falls_back_witness:
  "api_database_query ai_failing db_answering (Some ''count users'')
     = api_database_query (ai_failing\<lparr>gemini_enabled := False\<rparr>) db_answering (Some ''count users'') \<and>
   api_database_query ai_failing db_answering (Some ''count users'')
     = success ''count users'' sql_count_users ''pattern'' [''total_users''] [[3]]"
proof -
  have a: "''count users'' = strip (case Some ''count users'' of None \<Rightarrow> [] | Some s \<Rightarrow> s)"
    by code_simp
  have b: "''count users'' \<noteq> []" by simp
  have c: "db_connected ai_failing" "gemini_enabled ai_failing"
    "ai_call ai_failing ''count users'' = AiRaises ''504 Deadline Exceeded''"
    by (simp_all add: ai_failing_def)
  have p: "generate_sql_from_pattern ''count users'' = Some sql_count_users" by code_simp
  note t = ai_failure_falls_back [where db_execute = db_answering, OF a b c]
  from t have 1: "api_database_query ai_failing db_answering (Some ''count users'')
     = api_database_query (ai_failing\<lparr>gemini_enabled := False\<rparr>) db_answering (Some ''count users'')"
    by (rule conjunct1)
  from t have "api_database_query ai_failing db_answering (Some ''count users'') =
           (case generate_sql_from_pattern ''count users'' of
              None \<Rightarrow> (400, error_body no_candidate_message)
            | Some sql \<Rightarrow>
                (case db_answering sql of
                   DbRaises error_msg \<Rightarrow> execution_error error_msg
                 | DbRows columns rows \<Rightarrow> success ''count users'' sql ''pattern'' columns rows))"
    by (rule conjunct2)
  then have 2: "api_database_query ai_failing db_answering (Some ''count users'')
     = success ''count users'' sql_count_users ''pattern'' [''total_users''] [[3]]"
    unfolding p by (simp add: db_answering_def)
  from 1 2 show ?thesis by (rule conjI)
qed

text \<open>
  C1.  The rule-based translator is the first-match evaluation of the ordered rule list on
  the lower-cased, trimmed question: a rule whose predicate holds while no earlier one does
  gives the result, whatever the later rules say, and the result is \<^const>\<open>None\<close> when no
  predicate holds.  The result is a function of the question text alone.
\<close>

theorem generate_sql_from_pattern_first_match:
  "generate_sql_from_pattern question = translate_by_rule (strip (lower question)) \<and>
   (\<forall>k<length translation_rules.
      fst (translation_rules ! k) (strip (lower question)) \<and>
      (\<forall>j<k. \<not> fst (translation_rules ! j) (strip (lower question))) \<longrightarrow>
      generate_sql_from_pattern question
        = Some (snd (translation_rules ! k) (strip (lower question)))) \<and>
   ((\<forall>rule\<in>set translation_rules. \<not> fst rule (strip (lower question))) \<longrightarrow>
      generate_sql_from_pattern question = None)"
proof -
  let ?q = "strip (lower question)"
  have eq: "generate_sql_from_pattern question = translate_by_rule ?q"
    by (simp add: generate_sql_from_pattern_def from_pattern_first_match)
  have first: "generate_sql_from_pattern question = Some (snd (translation_rules ! k) ?q)"
    if "k < length translation_rules" "fst (translation_rules ! k) ?q"
      "\<forall>j<k. \<not> fst (translation_rules ! j) ?q" for k
  proof -
    from that have "find (\<lambda>rule. fst rule ?q) translation_rules = Some (translation_rules ! k)"
      unfolding find_Some_iff by blast
    then show ?thesis by (simp add: eq translate_by_rule_def first_match_find)
  qed
  have none: "generate_sql_from_pattern question = None"
    if "\<forall>rule\<in>set translation_rules. \<not> fst rule ?q"
  proof -
    from that have "find (\<lambda>rule. fst rule ?q) translation_rules = None"
      unfolding find_None_iff by blast
    then show ?thesis by (simp add: eq translate_by_rule_def first_match_find)
  qed
  from eq first none show ?thesis by blast
qed

theorem generate_sql_from_pattern_first_match_witness:
  "generate_sql_from_pattern ''How many users?'' = Some ''SELECT COUNT(*) as total_users FROM users;'' \<and>
   generate_sql_from_pattern ''hello there'' = None"
proof -
  have n: "strip (lower ''How many users?'') = ''how many users?''"
    "strip (lower ''hello there'') = ''hello there''"
    by code_simp+
  have len: "(10::nat) < length translation_rules" "(10::nat) \<le> length translation_rules"
    by (simp_all add: translation_rules_def)
  have k: "fst (translation_rules ! 10) ''how many users?''" by code_simp
  have "list_all (\<lambda>rule. \<not> fst rule ''how many users?'') (take 10 translation_rules)"
    by code_simp
  then have j: "\<forall>j<10. \<not> fst (translation_rules ! j) ''how many users?''"
    using all_less_take [OF len(2)] by blast
  have t: "snd (translation_rules ! 10) ''how many users?''
      = ''SELECT COUNT(*) as total_users FROM users;''" by code_simp
  have "list_all (\<lambda>rule. \<not> fst rule ''hello there'') translation_rules" by code_simp
  then have a: "\<forall>rule\<in>set translation_rules. \<not> fst rule ''hello there''"
    by (simp add: list_all_iff)
  from generate_sql_from_pattern_first_match [of "''How many users?''"] len(1) k j t
  have 1: "generate_sql_from_pattern ''How many users?'' = Some ''SELECT COUNT(*) as total_users FROM users;''"
    unfolding n by metis
  from generate_sql_from_pattern_first_match [of "''hello there''"] a
  have 2: "generate_sql_from_pattern ''hello there'' = None"
    unfolding n by blast
  from 1 2 show ?thesis by (rule conjI)
qed

text \<open>
  C10.  A question whose normalised text contains \<^verbatim>\<open>women\<close> and that none of the twenty rules
  before the category names matches is answered with the query for the category \<^verbatim>\<open>men\<close>:
  the names are looked for as substrings, \<^verbatim>\<open>men\<close> first.
\<close>

theorem women_is_answered_for_men:
  assumes "py_in ''women'' (strip (lower question))"
    and "\<forall>j<20. \<not> fst (translation_rules ! j) (strip (lower question))"
  shows "generate_sql_from_pattern question
    = Some (''SELECT name, price, brand, rating FROM products WHERE LOWER(category) = ''
            @ [CHR 0x27] @ ''men'' @ [CHR 0x27] @ '' ORDER BY rating DESC LIMIT 100;'')"
proof -
  let ?q = "strip (lower question)"
  from assms(1) obtain a b where "?q = a @ ''women'' @ b" unfolding py_in_iff by blast
  then have "?q = (a @ ''wo'') @ ''men'' @ b" by simp
  then have men: "py_in ''men'' ?q" unfolding py_in_iff by blast
  have len: "length translation_rules = 21" by (simp add: translation_rules_def)
  have r: "translation_rules ! 20 =
     (\<lambda>q. list_ex (\<lambda>cat. py_in cat q) categories, \<lambda>q. sql_category (first_in categories q))"
    by (simp add: translation_rules_def)
  have p: "fst (translation_rules ! 20) ?q"
    using men by (simp add: r categories_def)
  have "\<exists>i<length translation_rules. fst (translation_rules ! i) ?q \<and>
      translation_rules ! 20 = translation_rules ! i \<and>
      (\<forall>j<i. \<not> fst (translation_rules ! j) ?q)"
    using assms(2) p len by (intro exI [of _ 20]) simp
  then have "find (\<lambda>rule. fst rule ?q) translation_rules = Some (translation_rules ! 20)"
    unfolding find_Some_iff .
  then have "translate_by_rule ?q = Some (sql_category (first_in categories ?q))"
    by (simp add: translate_by_rule_def first_match_find r)
  moreover have "first_in categories ?q = ''men''"
    using men by (simp add: first_in_def categories_def)
  ultimately show ?thesis
    by (simp add: generate_sql_from_pattern_def from_pattern_first_match sql_category_def)
qed

theorem women_is_answered_for_men_witness:
  "generate_sql_from_pattern ''Best for women''
    = Some (''SELECT name, price, brand, rating FROM products WHERE LOWER(category) = ''
            @ [CHR 0x27] @ ''men'' @ [CHR 0x27] @ '' ORDER BY rating DESC LIMIT 100;'')"
proof -
  have n: "strip (lower ''Best for women'') = ''best for women''" by code_simp
  have w: "py_in ''women'' ''best for women''" by code_simp
  have len: "(20::nat) \<le> length translation_rules" by (simp add: translation_rules_def)
  have "list_all (\<lambda>rule. \<not> fst rule ''best for women'') (take 20 translation_rules)"
    by code_simp
  then have j: "\<forall>j<20. \<not> fst (translation_rules ! j) ''best for women''"
    using all_less_take [OF len] by blast
  from women_is_answered_for_men [of "''Best for women''"] w j
  show ?thesis unfolding n by blast
qed

text \<open>
  C8, as stated, fails: in \<^verbatim>\<open>top rated item5 or 7\<close> the first run of digits is \<^verbatim>\<open>5\<close>, but it
  follows a letter, where \<^verbatim>\<open>\b\<close> does not hold; the limit read, by the rule for rated products,
  is \<^verbatim>\<open>7\<close>.
\<close>

theorem first_digit_run_counterexample:
  "found rx_rated ''top rated item5 or 7'' \<and>
   first_digit_run_or ''10'' ''top rated item5 or 7'' = ''5'' \<and>
   get_limit ''top rated item5 or 7'' ''10'' = ''7'' \<and>
   generate_sql_from_pattern ''top rated item5 or 7'' = Some (sql_rated ''7'')"
  by code_simp

text \<open>
  C8, amended.  The bound read by \<^verbatim>\<open>get_limit\<close> is the first number of the normalised question,
  that is its first word (maximal run of letters, digits and underscores) made of digits
  only; when the question has no such word the bound is the default, which every rule that
  reads a limit sets to 10.
\<close>

theorem get_limit_first_number:
  "get_limit q dflt = (case first_number q of None \<Rightarrow> dflt | Some n \<Rightarrow> n)"
  by (rule get_limit_number)

theorem get_limit_first_number_witness:
  "get_limit ''top rated item5 or 7'' ''10'' = ''7'' \<and> get_limit ''top rated'' ''10'' = ''10''"
proof -
  have a: "first_number ''top rated item5 or 7'' = Some ''7''" by code_simp
  have b: "first_number ''top rated'' = None" by code_simp
  from get_limit_first_number [of "''top rated item5 or 7''" "''10''"]
    get_limit_first_number [of "''top rated''" "''10''"] a b
  show ?thesis by simp
qed




end
